theory Spec2Isabelle
  imports Main
begin

section \<open>Values, errors and the signal store\<close>

text \<open>
  The unit under verification is \<^verbatim>\<open>src/agents/pi-tools.abort.ts\<close>: \<^verbatim>\<open>throwAbortError\<close>,
  \<^verbatim>\<open>isRealAbortSignal\<close>, \<^verbatim>\<open>combineAbortSignals\<close> and \<^verbatim>\<open>wrapToolWithAbortSignal\<close>.
  Objects have identity, so signals and tools live in stores and are passed by reference
  (an index into the store); \<^verbatim>\<open>undefined\<close> for an optional reference is \<open>None\<close>.
\<close>

type_synonym ref = nat

datatype jsval =
    JUndefined
  | JNull
  | JBool bool
  | JNum int
  | JStr string
  | JObj "(string \<times> jsval) list"

text \<open>JavaScript truthiness, as used by \<^verbatim>\<open>if (a?.aborted)\<close>.\<close>

fun truthy :: "jsval \<Rightarrow> bool" where
  "truthy JUndefined = False"
| "truthy JNull = False"
| "truthy (JBool b) = b"
| "truthy (JNum n) = (n \<noteq> 0)"
| "truthy (JStr s) = (s \<noteq> [])"
| "truthy (JObj kvs) = True"

fun typeof_boolean :: "jsval \<Rightarrow> bool" where
  "typeof_boolean (JBool b) = True"
| "typeof_boolean v = False"

record js_error =
  err_name :: string
  err_message :: string

definition new_Error :: "string \<Rightarrow> js_error" where
  "new_Error msg = \<lparr>err_name = ''Error'', err_message = msg\<rparr>"

definition TypeError :: "string \<Rightarrow> js_error" where
  "TypeError msg = \<lparr>err_name = ''TypeError'', err_message = msg\<rparr>"

text \<open>
  What a property that should hold a method holds, told by what a call of it on this object
  does: it is not a function; it is the host's \<^verbatim>\<open>EventTarget\<close> method and the object is an
  event target; it is a function that returns without registering anything; it is a
  function that throws (a user function, or a host method that rejects its receiver).
\<close>

datatype slot = NotFunction | HostMethod | IgnoringFunction | ThrowingFunction js_error

text \<open>\<^verbatim>\<open>typeof f === "function"\<close>, and whether a call returns rather than throws.\<close>

fun typeof_function :: "slot \<Rightarrow> bool" where
  "typeof_function NotFunction = False"
| "typeof_function HostMethod = True"
| "typeof_function IgnoringFunction = True"
| "typeof_function (ThrowingFunction e) = True"


text \<open>
  A signal-like object. \<open>instanceof_AbortSignal\<close> is the outcome of
  \<^verbatim>\<open>obj instanceof AbortSignal\<close>; \<open>aborted\<close> is whatever the property holds (a boolean on a
  genuine signal). A listener for the \<^verbatim>\<open>"abort"\<close> event is a pair of the callback and its
  \<^verbatim>\<open>once\<close> option; the only callbacks this unit creates are the closures
  \<^verbatim>\<open>() => controller.abort()\<close>, identified by the reference of the controller's signal.
  \<open>dependents\<close> are the signals the host derived from this one with \<^verbatim>\<open>AbortSignal.any\<close>.
  \<open>abort_events\<close> counts the \<^verbatim>\<open>"abort"\<close> events dispatched on the object.
\<close>

record sigobj =
  instanceof_AbortSignal :: bool
  aborted :: jsval
  addEventListener :: slot
  removeEventListener :: slot
  listeners :: "(ref \<times> bool) list"
  dependents :: "ref list"
  abort_events :: nat

type_synonym heap = "sigobj list"

definition no_object :: sigobj where
  "no_object = \<lparr>instanceof_AbortSignal = False, aborted = JUndefined,
     addEventListener = NotFunction, removeEventListener = NotFunction,
     listeners = [], dependents = [], abort_events = 0\<rparr>"

text \<open>Reading through a reference; a reference outside the store reads as an object
  without properties.\<close>

definition obj :: "heap \<Rightarrow> ref \<Rightarrow> sigobj" where
  "obj h r = (if r < length h then h ! r else no_object)"

text \<open>The property \<^verbatim>\<open>aborted\<close> of the object behind a reference, read as a condition.\<close>

definition is_aborted :: "heap \<Rightarrow> ref \<Rightarrow> bool" where
  "is_aborted h r = truthy (aborted (obj h r))"

section \<open>The host: controllers, listeners, AbortSignal.any\<close>

definition fresh_signal :: sigobj where
  "fresh_signal = \<lparr>instanceof_AbortSignal = True, aborted = JBool False,
     addEventListener = HostMethod, removeEventListener = HostMethod,
     listeners = [], dependents = [], abort_events = 0\<rparr>"

text \<open>\<^verbatim>\<open>new AbortController()\<close>: allocates the controller's signal and returns its reference.\<close>

definition new_AbortController :: "heap \<Rightarrow> ref \<times> heap" where
  "new_AbortController h = (length h, h @ [fresh_signal])"

text \<open>
  The call \<^verbatim>\<open>recv?.addEventListener("abort", cb, {once})\<close> on the defined reference \<open>x\<close>, where
  \<open>recv\<close> is the name of the variable in the source. Calling a property that holds no
  function throws a TypeError, whose message names the callee expression; a throwing
  function throws its own error. The host's method ignores a callback that is already
  registered.
\<close>

definition call_addEventListener ::
    "string \<Rightarrow> ref \<Rightarrow> ref \<Rightarrow> bool \<Rightarrow> heap \<Rightarrow> js_error + heap" where
  "call_addEventListener recv x cb once h =
     (case addEventListener (obj h x) of
        NotFunction \<Rightarrow> Inl (TypeError (recv @ ''?.addEventListener is not a function''))
      | HostMethod \<Rightarrow>
          Inr (if cb \<in> set (map fst (listeners (obj h x))) then h
               else h[x := (obj h x)\<lparr>listeners := listeners (obj h x) @ [(cb, once)]\<rparr>])
      | IgnoringFunction \<Rightarrow> Inr h
      | ThrowingFunction e \<Rightarrow> Inl e)"

text \<open>The pending-to-triggered transition of one object: the flag is set, one event is
  dispatched, and the listeners registered with \<^verbatim>\<open>once\<close> are removed.\<close>

definition fire :: "sigobj \<Rightarrow> sigobj" where
  "fire s = s\<lparr>aborted := JBool True, abort_events := Suc (abort_events s),
              listeners := filter (\<lambda>l. \<not> snd l) (listeners s)\<rparr>"

definition targets :: "sigobj \<Rightarrow> ref list" where
  "targets s = map fst (listeners s) @ dependents s"

definition pending :: "heap \<Rightarrow> nat" where
  "pending h = length (filter (\<lambda>s. \<not> truthy (aborted s)) h)"

text \<open>
  Aborting signals, depth first, as the synchronous calls of the host do: aborting an
  already triggered signal does nothing; otherwise the signal fires, each of its listeners
  aborts its controller, and each dependent signal is aborted.
\<close>

function run_abort :: "ref list \<Rightarrow> heap \<Rightarrow> heap" where
  "run_abort [] h = h"
| "run_abort (r # rs) h =
     (if r < length h \<and> \<not> truthy (aborted (h ! r))
      then run_abort (targets (h ! r) @ rs) (h[r := fire (h ! r)])
      else run_abort rs h)"
  by pat_completeness auto
termination
proof (relation "measures [\<lambda>(ts, h). pending h, \<lambda>(ts, h). length ts]")
  show "wf (measures [\<lambda>(ts, h). pending h, \<lambda>(ts :: ref list, h :: heap). length ts])"
    by simp
next
  fix r :: ref and rs :: "ref list" and h :: heap
  assume a: "r < length h \<and> \<not> truthy (aborted (h ! r))"
  have "\<And>k. k < length h \<Longrightarrow> \<not> truthy (aborted (h ! k)) \<Longrightarrow>
          pending (h[k := fire (h ! k)]) < pending h"
  proof (induction h)
    case Nil
    then show ?case by simp
  next
    case (Cons s h)
    show ?case
    proof (cases k)
      case 0
      with Cons.prems show ?thesis by (simp add: pending_def fire_def)
    next
      case (Suc j)
      with Cons.prems Cons.IH [of j] show ?thesis by (simp add: pending_def)
    qed
  qed
  with a have "pending (h[r := fire (h ! r)]) < pending h" by blast
  then show "((targets (h ! r) @ rs, h[r := fire (h ! r)]), (r # rs, h))
      \<in> measures [\<lambda>(ts, h). pending h, \<lambda>(ts, h). length ts]"
    by simp
next
  fix r :: ref and rs :: "ref list" and h :: heap
  show "((rs, h), (r # rs, h)) \<in> measures [\<lambda>(ts, h). pending h, \<lambda>(ts, h). length ts]"
    by simp
qed

text \<open>Triggering the signal \<open>r\<close>: what \<^verbatim>\<open>controller.abort()\<close> does on the controller's
  signal. It cannot throw.\<close>

definition signal_abort :: "ref \<Rightarrow> heap \<Rightarrow> heap" where
  "signal_abort r h = run_abort [r] h"

definition add_dependent :: "ref \<Rightarrow> sigobj \<Rightarrow> sigobj" where
  "add_dependent c s = (if c \<in> set (dependents s) then s
                        else s\<lparr>dependents := dependents s @ [c]\<rparr>)"

text \<open>
  \<^verbatim>\<open>AbortSignal.any(signals)\<close> of the host: it throws a TypeError when an element is not an
  \<^verbatim>\<open>AbortSignal\<close>; otherwise it returns a new signal, already aborted when one of the sources
  is, and else registered as a dependent of every source.
\<close>

definition AbortSignal_any :: "ref list \<Rightarrow> heap \<Rightarrow> (js_error + ref) \<times> heap" where
  "AbortSignal_any srcs h =
     (if list_ex (\<lambda>s. \<not> instanceof_AbortSignal (obj h s)) srcs
      then (Inl (TypeError ''not an instance of AbortSignal''), h)
      else if list_ex (\<lambda>s. truthy (aborted (obj h s))) srcs
      then (Inr (length h), h @ [fresh_signal\<lparr>aborted := JBool True\<rparr>])
      else (Inr (length h),
            fold (\<lambda>s g. g[s := add_dependent (length h) (obj g s)]) srcs (h @ [fresh_signal])))"

section \<open>The unit: pi-tools.abort.ts\<close>

text \<open>\<^verbatim>\<open>throwAbortError\<close> never returns: it builds \<^verbatim>\<open>new Error("Aborted")\<close>, sets its name to
  \<^verbatim>\<open>"AbortError"\<close> and throws it. The thrown value is the left summand.\<close>

definition throwAbortError :: "js_error + jsval" where
  "throwAbortError = (let err = new_Error ''Aborted'' in Inl (err\<lparr>err_name := ''AbortError''\<rparr>))"

definition isRealAbortSignal :: "heap \<Rightarrow> ref \<Rightarrow> bool" where
  "isRealAbortSignal h r =
     (if \<not> instanceof_AbortSignal (obj h r) then False
      else typeof_boolean (aborted (obj h r)) \<and>
           typeof_function (addEventListener (obj h r)) \<and>
           typeof_function (removeEventListener (obj h r)))"

text \<open>
  \<^verbatim>\<open>combineAbortSignals(a?, b?)\<close>. The first argument of the model is the outcome of
  \<^verbatim>\<open>typeof AbortSignal.any === "function"\<close> in the host. The three leading tests of the
  source distinguish which arguments are defined (an object reference is always truthy);
  from the fourth test on both are defined and \<^verbatim>\<open>a?.\<close> is a plain property access.
\<close>

definition combineAbortSignals ::
    "bool \<Rightarrow> ref option \<Rightarrow> ref option \<Rightarrow> heap \<Rightarrow> (js_error + ref option) \<times> heap" where
  "combineAbortSignals any_is_function a b h =
     (case (a, b) of
        (None, None) \<Rightarrow> (Inr None, h)
      | (Some x, None) \<Rightarrow> (Inr (Some x), h)
      | (None, Some y) \<Rightarrow> (Inr (Some y), h)
      | (Some x, Some y) \<Rightarrow>
          if is_aborted h x then (Inr (Some x), h)
          else if is_aborted h y then (Inr (Some y), h)
          else if any_is_function \<and> isRealAbortSignal h x \<and> isRealAbortSignal h y
          then (case AbortSignal_any [x, y] h of
                  (Inl e, h') \<Rightarrow> (Inl e, h')
                | (Inr c, h') \<Rightarrow> (Inr (Some c), h'))
          else (case new_AbortController h of
                  (controller, h1) \<Rightarrow>
                    (case call_addEventListener ''a'' x controller True h1 of
                       Inl e \<Rightarrow> (Inl e, h1)
                     | Inr h2 \<Rightarrow>
                         (case call_addEventListener ''b'' y controller True h2 of
                            Inl e \<Rightarrow> (Inl e, h2)
                          | Inr h3 \<Rightarrow> (Inr (Some controller), h3)))))"

text \<open>\<^verbatim>\<open>combined?.aborted\<close> as a condition.\<close>

definition opt_aborted :: "heap \<Rightarrow> ref option \<Rightarrow> bool" where
  "opt_aborted h c = (case c of None \<Rightarrow> False | Some r \<Rightarrow> is_aborted h r)"

text \<open>
  The arguments of an execution operation: call identifier, parameters, optional signal,
  optional progress callback (a function, known by its identity).
\<close>

type_synonym call_args = "string \<times> jsval \<times> ref option \<times> nat option"

text \<open>
  Function values that can sit in a tool's \<^verbatim>\<open>execute\<close> field: an operation of the
  framework, opaque but for its effect on the signal store and its outcome (\<open>Inl\<close> a
  rejection, \<open>Inr\<close> a result), or the closure built by \<^verbatim>\<open>wrapToolWithAbortSignal\<close>, which
  captures the original \<^verbatim>\<open>execute\<close> and the ambient \<^verbatim>\<open>abortSignal\<close>.
\<close>

datatype fn =
    Native "call_args \<Rightarrow> heap \<Rightarrow> (js_error + jsval) \<times> heap"
  | Wrapped fn ref

text \<open>
  The declaration of \<^verbatim>\<open>AnyAgentTool\<close> is not part of the sources. A tool is an object with
  data properties, and where a property lives matters to the object spread: the fields
  other than \<^verbatim>\<open>execute\<close> are the own enumerable ones, the own non-enumerable ones, and the
  ones inherited from the prototype chain, each with its value. \<open>execute\<close> is what reading
  \<^verbatim>\<open>tool.execute\<close> yields, wherever that property lives. Accessor properties are not
  modelled.
\<close>

record tool =
  own_enumerable :: "(string \<times> jsval) list"
  own_hidden :: "(string \<times> jsval) list"
  inherited :: "(string \<times> jsval) list"
  execute :: "fn option"


text \<open>The running state: the signal store, and the log of the calls
  \<^verbatim>\<open>execute(toolCallId, params, combined, onUpdate)\<close> made by wrappers.\<close>

record state =
  signals :: heap
  calls :: "(fn \<times> call_args) list"

text \<open>
  Calling a function value. The second equation is the body of the closure returned by
  \<^verbatim>\<open>wrapToolWithAbortSignal\<close>; a throw inside the \<^verbatim>\<open>async\<close> body is a rejection.
\<close>

fun apply_fn :: "bool \<Rightarrow> fn \<Rightarrow> call_args \<Rightarrow> state \<Rightarrow> (js_error + jsval) \<times> state" where
  "apply_fn env (Native body) args w =
     (case body args (signals w) of (res, h) \<Rightarrow> (res, w\<lparr>signals := h\<rparr>))"
| "apply_fn env (Wrapped exec abortSignal) (toolCallId, params, signal, onUpdate) w =
     (case combineAbortSignals env signal (Some abortSignal) (signals w) of
        (Inl e, h1) \<Rightarrow> (Inl e, w\<lparr>signals := h1\<rparr>)
      | (Inr combined, h1) \<Rightarrow>
          if opt_aborted h1 combined then (throwAbortError, w\<lparr>signals := h1\<rparr>)
          else apply_fn env exec (toolCallId, params, combined, onUpdate)
                 (w\<lparr>signals := h1,
                    calls := calls w @ [(exec, (toolCallId, params, combined, onUpdate))]\<rparr>))"

text \<open>\<^verbatim>\<open>tool.execute\<close>, read through a reference into the tool store.\<close>

definition tool_execute :: "tool list \<Rightarrow> ref \<Rightarrow> fn option" where
  "tool_execute ts t = (if t < length ts then execute (ts ! t) else None)"

text \<open>
  \<^verbatim>\<open>wrapToolWithAbortSignal(tool, abortSignal?)\<close>: returns a tool reference and the tool
  store. The object literal \<^verbatim>\<open>{...tool, execute: ...}\<close> allocates a new plain object: the
  spread copies the own enumerable properties of the tool and nothing else, and
  \<^verbatim>\<open>execute\<close> is then set to the closure.
\<close>

definition wrapToolWithAbortSignal :: "ref \<Rightarrow> ref option \<Rightarrow> tool list \<Rightarrow> ref \<times> tool list" where
  "wrapToolWithAbortSignal t abortSignal ts =
     (case abortSignal of
        None \<Rightarrow> (t, ts)
      | Some s \<Rightarrow>
          (case tool_execute ts t of
             None \<Rightarrow> (t, ts)
           | Some ex \<Rightarrow>
               (length ts,
                ts @ [\<lparr>own_enumerable = own_enumerable (ts ! t), own_hidden = [],
                       inherited = [], execute = Some (Wrapped ex s)\<rparr>])))"

text \<open>Nesting depth of a closure.\<close>

fun depth :: "fn \<Rightarrow> nat" where
  "depth (Native body) = 0"
| "depth (Wrapped ex s) = Suc (depth ex)"

subsection \<open>Example values\<close>

text \<open>The tool \<^verbatim>\<open>echo\<close>, a plain object: its execution operation returns its parameters
  after checking that the signal it received is not triggered. A tool without an execution
  operation. A tool that is an instance of a class: its description is inherited from the
  prototype and its version is a non-enumerable property.
  A store whose first object passes \<^verbatim>\<open>instanceof\<close> but has no \<^verbatim>\<open>addEventListener\<close>
  function, one whose first object comes from another realm, and one whose first object
  has an \<^verbatim>\<open>addEventListener\<close> function that throws.\<close>

definition echo :: fn where
  "echo = Native (\<lambda>(toolCallId, params, signal, onUpdate) h.
            (if opt_aborted h signal then throwAbortError else Inr params, h))"

definition echo_tool :: tool where
  "echo_tool = \<lparr>own_enumerable = [(''name'', JStr ''echo'')], own_hidden = [],
     inherited = [], execute = Some echo\<rparr>"

definition info_tool :: tool where
  "info_tool = \<lparr>own_enumerable = [(''name'', JStr ''info'')], own_hidden = [],
     inherited = [], execute = None\<rparr>"




definition throwing_store :: heap where
  "throwing_store =
     [fresh_signal\<lparr>instanceof_AbortSignal := False,
        addEventListener := ThrowingFunction (TypeError ''Illegal invocation'')\<rparr>,
      fresh_signal]"

section \<open>Facts about the host's abort steps\<close>







section \<open>Facts about the unit\<close>


text \<open>A call logs only calls of closures nested strictly inside the called one.\<close>

lemma apply_fn_calls:
  "\<exists>more. calls (snd (apply_fn env f args w)) = calls w @ more \<and>
          (\<forall>c \<in> set more. depth (fst c) < depth f)"
proof (induction f arbitrary: args w)
  case (Native body)
  then show ?case by (simp split: prod.splits)
next
  case (Wrapped f s)
  obtain cid params sig upd where a: "args = (cid, params, sig, upd)" by (cases args) auto
  show ?case
  proof (cases "combineAbortSignals env sig (Some s) (signals w)")
    case (Pair r h1)
    show ?thesis
    proof (cases r)
      case (Inl e)
      with Pair a show ?thesis by simp
    next
      case (Inr combined)
      show ?thesis
      proof (cases "opt_aborted h1 combined")
        case True
        with Pair a Inr show ?thesis by simp
      next
        case False
        let ?w1 = "w\<lparr>signals := h1, calls := calls w @ [(f, (cid, params, combined, upd))]\<rparr>"
        from Wrapped.IH [of "(cid, params, combined, upd)" ?w1]
        obtain more where m:
          "calls (snd (apply_fn env f (cid, params, combined, upd) ?w1)) = calls ?w1 @ more"
          "\<forall>c \<in> set more. depth (fst c) < depth f" by blast
        have "apply_fn env (Wrapped f s) args w = apply_fn env f (cid, params, combined, upd) ?w1"
          using Pair a Inr False by simp
        with m show ?thesis by auto
      qed
    qed
  qed
qed

lemma wrap_result:
  assumes "tool_execute ts t = Some ex"
  shows "wrapToolWithAbortSignal t (Some s) ts =
           (length ts,
            ts @ [\<lparr>own_enumerable = own_enumerable (ts ! t), own_hidden = [],
                   inherited = [], execute = Some (Wrapped ex s)\<rparr>])"
  using assms by (simp add: wrapToolWithAbortSignal_def)

section \<open>The claims\<close>

text \<open>
  C1. For a tool with an execution operation and an ambient signal: when the wrapped
  execution operation is called and the combination of the per-call signal with the
  ambient signal is already triggered, the call is rejected with the error named
  \<^verbatim>\<open>"AbortError"\<close> with message \<^verbatim>\<open>"Aborted"\<close>, and no call of the underlying operation
  is made (the call log is unchanged).
\<close>

theorem wrapped_execute_rejects_when_aborted:
  assumes "tool_execute ts t = Some ex"
    and "wrapToolWithAbortSignal t (Some s) ts = (t', ts')"
    and "combineAbortSignals env sig (Some s) (signals w) = (Inr combined, h1)"
    and "opt_aborted h1 combined"
  shows "\<exists>ex'. tool_execute ts' t' = Some ex' \<and>
     fst (apply_fn env ex' (cid, params, sig, upd) w) =
       Inl \<lparr>err_name = ''AbortError'', err_message = ''Aborted''\<rparr> \<and>
     calls (snd (apply_fn env ex' (cid, params, sig, upd) w)) = calls w"
proof -
  have "tool_execute ts' t' = Some (Wrapped ex s)"
    using assms(2) wrap_result [OF assms(1), of s] by (auto simp: tool_execute_def)
  moreover have "apply_fn env (Wrapped ex s) (cid, params, sig, upd) w =
      (Inl \<lparr>err_name = ''AbortError'', err_message = ''Aborted''\<rparr>, w\<lparr>signals := h1\<rparr>)"
    using assms(3,4) by (simp add: throwAbortError_def new_Error_def)
  ultimately show ?thesis by simp
qed

theorem wrapped_execute_rejects_when_aborted_witness:
  "\<exists>ex'. tool_execute [echo_tool, echo_tool\<lparr>execute := Some (Wrapped echo 0)\<rparr>] 1 = Some ex' \<and>
     fst (apply_fn True ex' (''call-2'', JObj [(''x'', JNum 1)], None, None)
            \<lparr>signals = [fire fresh_signal], calls = []\<rparr>) =
       Inl \<lparr>err_name = ''AbortError'', err_message = ''Aborted''\<rparr> \<and>
     calls (snd (apply_fn True ex' (''call-2'', JObj [(''x'', JNum 1)], None, None)
            \<lparr>signals = [fire fresh_signal], calls = []\<rparr>)) = []"
proof -
  let ?w = "\<lparr>signals = [fire fresh_signal], calls = []\<rparr>"
  have 1: "tool_execute [echo_tool] 0 = Some echo"
    by (simp add: tool_execute_def echo_tool_def)
  have 2: "wrapToolWithAbortSignal 0 (Some 0) [echo_tool] =
             (1, [echo_tool, echo_tool\<lparr>execute := Some (Wrapped echo 0)\<rparr>])"
    by (simp add: wrapToolWithAbortSignal_def tool_execute_def echo_tool_def)
  have 3: "combineAbortSignals True None (Some 0) (signals ?w) = (Inr (Some 0), [fire fresh_signal])"
    by (simp add: combineAbortSignals_def)
  have 4: "opt_aborted [fire fresh_signal] (Some 0)"
    by (simp add: opt_aborted_def is_aborted_def obj_def fire_def)
  from wrapped_execute_rejects_when_aborted [OF 1 2 3 4, of "''call-2''" "JObj [(''x'', JNum 1)]" None]
  show ?thesis by simp
qed



text \<open>
  C3. For signals A and B, both provided, with A already triggered,
  \<^verbatim>\<open>combineAbortSignals(A, B)\<close> returns the reference A itself and allocates nothing.
\<close>

theorem combine_returns_triggered_first:
  assumes "is_aborted h a"
  shows "combineAbortSignals env (Some a) (Some b) h = (Inr (Some a), h)"
  using assms by (simp add: combineAbortSignals_def)

theorem combine_returns_triggered_first_witness:
  "combineAbortSignals True (Some 0) (Some 1) [fire fresh_signal, fresh_signal] =
     (Inr (Some 0), [fire fresh_signal, fresh_signal])"
proof -
  have "is_aborted [fire fresh_signal, fresh_signal] 0"
    by (simp add: is_aborted_def obj_def fire_def)
  then show ?thesis by (rule combine_returns_triggered_first)
qed

text \<open>
  C4. For a tool with an execution operation and an ambient signal: when the wrapped
  execution operation is called and the combined signal is not triggered, the outcome
  (result or rejection) and the resulting state are those of the original operation called
  with the same call identifier, parameters and progress callback and with the combined
  signal in place of the per-call signal; the calls of the original operation logged
  during the invocation are exactly that one call.
\<close>

theorem wrapped_execute_delegates_once:
  assumes "tool_execute ts t = Some ex"
    and "wrapToolWithAbortSignal t (Some s) ts = (t', ts')"
    and "combineAbortSignals env sig (Some s) (signals w) = (Inr combined, h1)"
    and "\<not> opt_aborted h1 combined"
  shows "\<exists>ex'. tool_execute ts' t' = Some ex' \<and>
     apply_fn env ex' (cid, params, sig, upd) w =
       apply_fn env ex (cid, params, combined, upd)
         (w\<lparr>signals := h1, calls := calls w @ [(ex, (cid, params, combined, upd))]\<rparr>) \<and>
     filter (\<lambda>c. fst c = ex)
       (drop (length (calls w)) (calls (snd (apply_fn env ex' (cid, params, sig, upd) w)))) =
       [(ex, (cid, params, combined, upd))]"
proof -
  let ?args = "(cid, params, combined, upd)"
  let ?w1 = "w\<lparr>signals := h1, calls := calls w @ [(ex, ?args)]\<rparr>"
  have e: "tool_execute ts' t' = Some (Wrapped ex s)"
    using assms(2) wrap_result [OF assms(1), of s] by (auto simp: tool_execute_def)
  have a: "apply_fn env (Wrapped ex s) (cid, params, sig, upd) w = apply_fn env ex ?args ?w1"
    using assms(3,4) by simp
  from apply_fn_calls [of env ex ?args ?w1] obtain more where
    m: "calls (snd (apply_fn env ex ?args ?w1)) = calls ?w1 @ more"
       "\<forall>c \<in> set more. depth (fst c) < depth ex" by blast
  then have "filter (\<lambda>c. fst c = ex) more = []" by (auto simp: filter_empty_conv)
  with m(1) have "filter (\<lambda>c. fst c = ex)
      (drop (length (calls w)) (calls (snd (apply_fn env ex ?args ?w1)))) = [(ex, ?args)]"
    by simp
  with e a show ?thesis by simp
qed

theorem wrapped_execute_delegates_once_witness:
  "\<exists>ex'. tool_execute [echo_tool, echo_tool\<lparr>execute := Some (Wrapped echo 0)\<rparr>] 1 = Some ex' \<and>
     apply_fn True ex' (''call-1'', JObj [(''x'', JNum 1)], None, None)
         \<lparr>signals = [fresh_signal], calls = []\<rparr> =
       apply_fn True echo (''call-1'', JObj [(''x'', JNum 1)], Some 0, None)
         (\<lparr>signals = [fresh_signal], calls = []\<rparr>\<lparr>signals := [fresh_signal],
            calls := calls \<lparr>signals = [fresh_signal], calls = []\<rparr> @
              [(echo, (''call-1'', JObj [(''x'', JNum 1)], Some 0, None))]\<rparr>) \<and>
     filter (\<lambda>c. fst c = echo)
       (drop (length (calls \<lparr>signals = [fresh_signal], calls = []\<rparr>))
          (calls (snd (apply_fn True ex' (''call-1'', JObj [(''x'', JNum 1)], None, None)
             \<lparr>signals = [fresh_signal], calls = []\<rparr>)))) =
       [(echo, (''call-1'', JObj [(''x'', JNum 1)], Some 0, None))]"
proof -
  let ?w = "\<lparr>signals = [fresh_signal], calls = []\<rparr>"
  have 1: "tool_execute [echo_tool] 0 = Some echo"
    by (simp add: tool_execute_def echo_tool_def)
  have 2: "wrapToolWithAbortSignal 0 (Some 0) [echo_tool] =
             (1, [echo_tool, echo_tool\<lparr>execute := Some (Wrapped echo 0)\<rparr>])"
    by (simp add: wrapToolWithAbortSignal_def tool_execute_def echo_tool_def)
  have 3: "combineAbortSignals True None (Some 0) (signals ?w) = (Inr (Some 0), [fresh_signal])"
    by (simp add: combineAbortSignals_def)
  have 4: "\<not> opt_aborted [fresh_signal] (Some 0)"
    by (simp add: opt_aborted_def is_aborted_def obj_def fresh_signal_def)
  show ?thesis
    by (rule wrapped_execute_delegates_once [OF 1 2 3 4])
qed

text \<open>
  C5. \<^verbatim>\<open>combineAbortSignals\<close> without inputs returns \<^verbatim>\<open>undefined\<close>; with exactly one input it
  returns that very reference; in both cases the store is left as it was, so nothing is
  copied or allocated.
\<close>

theorem combine_absent_inputs:
  "combineAbortSignals env None None h = (Inr None, h) \<and>
   combineAbortSignals env (Some a) None h = (Inr (Some a), h) \<and>
   combineAbortSignals env None (Some b) h = (Inr (Some b), h)"
  by (simp add: combineAbortSignals_def)

theorem combine_absent_inputs_witness:
  "combineAbortSignals True None None [fresh_signal] = (Inr None, [fresh_signal]) \<and>
   combineAbortSignals True (Some 0) None [fresh_signal] = (Inr (Some 0), [fresh_signal]) \<and>
   combineAbortSignals True None (Some 0) [fresh_signal] = (Inr (Some 0), [fresh_signal])"
  by (rule combine_absent_inputs)

text \<open>
  C6. Without an ambient signal, \<^verbatim>\<open>wrapToolWithAbortSignal\<close> returns the reference of the
  tool it was given, and the tool store is unchanged.
\<close>

theorem wrap_without_signal_is_identity:
  "wrapToolWithAbortSignal t None ts = (t, ts)"
  by (simp add: wrapToolWithAbortSignal_def)

theorem wrap_without_signal_is_identity_witness:
  "wrapToolWithAbortSignal 0 None [echo_tool] = (0, [echo_tool])"
  by (rule wrap_without_signal_is_identity)

text \<open>
  C7. For a tool without an execution operation, \<^verbatim>\<open>wrapToolWithAbortSignal\<close> returns the
  reference of the tool it was given, whatever the ambient signal, and the tool store is
  unchanged.
\<close>

theorem wrap_without_execute_is_identity:
  assumes "t < length ts" "execute (ts ! t) = None"
  shows "wrapToolWithAbortSignal t abortSignal ts = (t, ts)"
  using assms by (simp add: wrapToolWithAbortSignal_def tool_execute_def split: option.splits)

theorem wrap_without_execute_is_identity_witness:
  "wrapToolWithAbortSignal 0 (Some 0) [info_tool] = (0, [info_tool])"
proof -
  have 1: "0 < length [info_tool]" by simp
  have 2: "execute ([info_tool] ! 0) = None" by (simp add: info_tool_def)
  show ?thesis by (rule wrap_without_execute_is_identity [OF 1 2])
qed









text \<open>
  C10. For signals A and B, both provided and both already triggered,
  \<^verbatim>\<open>combineAbortSignals(A, B)\<close> returns A and \<^verbatim>\<open>combineAbortSignals(B, A)\<close> returns B: the
  first argument takes precedence.
\<close>

theorem combine_both_triggered_prefers_first:
  assumes "is_aborted h a" "is_aborted h b"
  shows "combineAbortSignals env (Some a) (Some b) h = (Inr (Some a), h) \<and>
         combineAbortSignals env (Some b) (Some a) h = (Inr (Some b), h)"
  using assms by (simp add: combineAbortSignals_def)

theorem combine_both_triggered_prefers_first_witness:
  "combineAbortSignals True (Some 0) (Some 1) [fire fresh_signal, fire fresh_signal] =
     (Inr (Some 0), [fire fresh_signal, fire fresh_signal]) \<and>
   combineAbortSignals True (Some 1) (Some 0) [fire fresh_signal, fire fresh_signal] =
     (Inr (Some 1), [fire fresh_signal, fire fresh_signal])"
proof -
  have 1: "is_aborted [fire fresh_signal, fire fresh_signal] 0"
    and 2: "is_aborted [fire fresh_signal, fire fresh_signal] 1"
    by (simp_all add: is_aborted_def obj_def fire_def)
  show ?thesis by (rule combine_both_triggered_prefers_first [OF 1 2])
qed

section \<open>The end-to-end scenarios\<close>

text \<open>With an untriggered ambient signal the wrapped \<^verbatim>\<open>echo\<close> resolves to its parameters and
  receives the ambient signal; with a triggered one it is rejected and \<^verbatim>\<open>echo\<close> is not
  called.\<close>

lemma echo_resolves:
  "apply_fn True (Wrapped echo 0) (''call-1'', JObj [(''x'', JNum 1)], None, None)
       \<lparr>signals = [fresh_signal], calls = []\<rparr> =
     (Inr (JObj [(''x'', JNum 1)]),
      \<lparr>signals = [fresh_signal],
       calls = [(echo, (''call-1'', JObj [(''x'', JNum 1)], Some 0, None))]\<rparr>)"
  by (simp add: echo_def combineAbortSignals_def opt_aborted_def is_aborted_def obj_def
      fresh_signal_def)

lemma echo_rejected:
  "apply_fn True (Wrapped echo 0) (''call-2'', JObj [(''x'', JNum 1)], None, None)
       \<lparr>signals = [fire fresh_signal], calls = []\<rparr> =
     (Inl \<lparr>err_name = ''AbortError'', err_message = ''Aborted''\<rparr>,
      \<lparr>signals = [fire fresh_signal], calls = []\<rparr>)"
  by (simp add: combineAbortSignals_def opt_aborted_def is_aborted_def obj_def fire_def
      throwAbortError_def new_Error_def)

text \<open>The manual path on two fresh signals, and the state after the second source fires.\<close>

text \<open>A callable \<^verbatim>\<open>addEventListener\<close> that throws makes the combination throw that error.\<close>

lemma throwing_listener_example:
  "\<not> is_aborted throwing_store 0 \<and> \<not> is_aborted throwing_store 1 \<and>
   typeof_function (addEventListener (obj throwing_store 0)) \<and>
   fst (combineAbortSignals True (Some 0) (Some 1) throwing_store) =
     Inl (TypeError ''Illegal invocation'')"
  by (simp add: throwing_store_def is_aborted_def obj_def fresh_signal_def isRealAbortSignal_def
      combineAbortSignals_def new_AbortController_def call_addEventListener_def)

lemma manual_combination_example:
  "combineAbortSignals False (Some 0) (Some 1) [fresh_signal, fresh_signal] =
     (Inr (Some 2),
      [fresh_signal\<lparr>listeners := [(2, True)]\<rparr>, fresh_signal\<lparr>listeners := [(2, True)]\<rparr>,
       fresh_signal])"
  by (simp add: combineAbortSignals_def is_aborted_def obj_def fresh_signal_def
      new_AbortController_def call_addEventListener_def)

lemma manual_trigger_example:
  "signal_abort 1
     [fresh_signal\<lparr>listeners := [(2, True)]\<rparr>, fresh_signal\<lparr>listeners := [(2, True)]\<rparr>,
      fresh_signal] =
   [fresh_signal\<lparr>listeners := [(2, True)]\<rparr>, fire fresh_signal, fire fresh_signal]"
  by (simp add: signal_abort_def fresh_signal_def fire_def targets_def)

end
